theory Spec2Isabelle
  imports Main "HOL-Library.AList" "HOL-Library.Finite_Map" "HOL-Library.Sublist"
begin

section \<open>Python values and exceptions\<close>

text \<open>
  The language-pack command (\<^verbatim>\<open>update_language_packs.py\<close>) works on the values that
  \<^verbatim>\<open>json.loads\<close> returns: \<^verbatim>\<open>None\<close>, booleans, integers, strings, lists and
  dictionaries with string keys. A dictionary is a finite map, so that two dictionaries
  are equal exactly when they hold the same keys with the same values, whatever the order
  in which they were filled. Floating-point numbers are left out of the value universe:
  every theorem below speaks about records and status entries built from the six
  constructors of \<open>pyval\<close>.
\<close>

datatype pyval =
    PNone
  | PBool bool
  | PInt int
  | PStr string
  | PList "pyval list"
  | PDict "(string, pyval) fmap"

text \<open>
  Every \<^verbatim>\<open>raise\<close> of the source and of the library calls it makes is a value of
  \<open>pyerr\<close>; a computation that may raise returns \<open>pyerr + 'a\<close>, with \<open>Inl\<close> for the
  exception. \<open>OtherError\<close> stands for an exception class of a helper that is not among
  the sources.
\<close>

datatype pyerr =
    AttributeError
  | TypeError
  | ValueError
  | KeyError
  | IOError
  | OSError
  | HTTPError nat
  | ConnectionError
  | BadZipfile
  | CommandError
  | OtherError string

definition and_then :: "pyerr + 'a \<Rightarrow> ('a \<Rightarrow> pyerr + 'b) \<Rightarrow> pyerr + 'b" where
  "and_then r f = (case r of Inl e \<Rightarrow> Inl e | Inr x \<Rightarrow> f x)"

text \<open>Truth value of an object, as \<^verbatim>\<open>not x\<close>, \<^verbatim>\<open>x or y\<close> and \<^verbatim>\<open>if x:\<close> test it.\<close>

fun py_truthy :: "pyval \<Rightarrow> bool" where
  "py_truthy PNone = False"
| "py_truthy (PBool b) = b"
| "py_truthy (PInt i) = (i \<noteq> 0)"
| "py_truthy (PStr s) = (s \<noteq> [])"
| "py_truthy (PList xs) = (xs \<noteq> [])"
| "py_truthy (PDict d) = (d \<noteq> fmempty)"

text \<open>
  \<^verbatim>\<open>a == b\<close>: structural equality, except that \<^verbatim>\<open>bool\<close> is a subclass of
  \<^verbatim>\<open>int\<close> (\<^verbatim>\<open>True == 1\<close>, \<^verbatim>\<open>False == 0\<close>), also inside lists and dictionaries.
\<close>

primrec py_norm :: "pyval \<Rightarrow> pyval" where
  "py_norm PNone = PNone"
| "py_norm (PBool b) = PInt (if b then 1 else 0)"
| "py_norm (PInt i) = PInt i"
| "py_norm (PStr s) = PStr s"
| "py_norm (PList xs) = PList (map py_norm xs)"
| "py_norm (PDict d) = PDict (fmmap py_norm d)"

definition py_eq :: "pyval \<Rightarrow> pyval \<Rightarrow> bool" where
  "py_eq a b = (py_norm a = py_norm b)"

text \<open>\<^verbatim>\<open>d.get(k)\<close> on a dictionary: the value, or \<^verbatim>\<open>None\<close> when the key is missing.\<close>

definition dict_get :: "(string, pyval) fmap \<Rightarrow> string \<Rightarrow> pyval" where
  "dict_get d k = (case fmlookup d k of None \<Rightarrow> PNone | Some v \<Rightarrow> v)"

text \<open>
  \<^verbatim>\<open>x.get(k)\<close> on any object: only a dictionary has the method; on \<^verbatim>\<open>None\<close>, a
  number, a string or a list the attribute lookup raises \<^verbatim>\<open>AttributeError\<close>.
\<close>

fun py_get :: "pyval \<Rightarrow> string \<Rightarrow> pyerr + pyval" where
  "py_get (PDict d) k = Inr (dict_get d k)"
| "py_get PNone k = Inl AttributeError"
| "py_get (PBool b) k = Inl AttributeError"
| "py_get (PInt i) k = Inl AttributeError"
| "py_get (PStr s) k = Inl AttributeError"
| "py_get (PList xs) k = Inl AttributeError"

text \<open>
  \<^verbatim>\<open>a + b\<close>: integers and booleans add as numbers, strings and lists concatenate,
  everything else raises \<^verbatim>\<open>TypeError\<close> (so does \<^verbatim>\<open>None + 1\<close>).
\<close>

fun py_num :: "pyval \<Rightarrow> int option" where
  "py_num (PInt i) = Some i"
| "py_num (PBool b) = Some (if b then 1 else 0)"
| "py_num PNone = None"
| "py_num (PStr s) = None"
| "py_num (PList xs) = None"
| "py_num (PDict d) = None"

fun py_add :: "pyval \<Rightarrow> pyval \<Rightarrow> pyerr + pyval" where
  "py_add (PStr s) (PStr t) = Inr (PStr (s @ t))"
| "py_add (PList xs) (PList ys) = Inr (PList (xs @ ys))"
| "py_add a b =
     (case (py_num a, py_num b) of
        (Some x, Some y) \<Rightarrow> Inr (PInt (x + y))
      | _ \<Rightarrow> Inl TypeError)"

section \<open>Strings and the built-in \<^verbatim>\<open>int\<close>\<close>

definition is_space :: "char \<Rightarrow> bool" where
  "is_space c = (c = CHR '' '' \<or> c = CHR 0x09 \<or> c = CHR 0x0A \<or> c = CHR 0x0B
                 \<or> c = CHR 0x0C \<or> c = CHR 0x0D)"

definition strip :: "string \<Rightarrow> string" where
  "strip s = rev (dropWhile is_space (rev (dropWhile is_space s)))"

definition digit_val :: "char \<Rightarrow> nat option" where
  "digit_val c =
     map_of [(CHR ''0'', 0), (CHR ''1'', 1), (CHR ''2'', 2), (CHR ''3'', 3), (CHR ''4'', 4),
             (CHR ''5'', 5), (CHR ''6'', 6), (CHR ''7'', 7), (CHR ''8'', 8), (CHR ''9'', 9)] c"

fun digits_val :: "string \<Rightarrow> nat \<Rightarrow> nat option" where
  "digits_val [] acc = Some acc"
| "digits_val (c # cs) acc =
     (case digit_val c of None \<Rightarrow> None | Some d \<Rightarrow> digits_val cs (10 * acc + d))"

text \<open>
  The decimal literal that \<^verbatim>\<open>int(s)\<close> accepts: surrounding white space, an optional
  sign, at least one digit.
\<close>

definition parse_int :: "string \<Rightarrow> int option" where
  "parse_int s =
     (case strip s of
        [] \<Rightarrow> None
      | c # cs \<Rightarrow>
          if c = CHR ''-'' then
            (if cs = [] then None else map_option (\<lambda>n. - int n) (digits_val cs 0))
          else if c = CHR ''+'' then
            (if cs = [] then None else map_option int (digits_val cs 0))
          else map_option int (digits_val (c # cs) 0))"

text \<open>
  \<^verbatim>\<open>int(x)\<close>: a number is converted, a string is parsed (\<^verbatim>\<open>ValueError\<close> when it is
  not a decimal literal), \<^verbatim>\<open>None\<close>, a list or a dictionary raises \<^verbatim>\<open>TypeError\<close>.
\<close>

fun py_int :: "pyval \<Rightarrow> pyerr + pyval" where
  "py_int (PInt i) = Inr (PInt i)"
| "py_int (PBool b) = Inr (PInt (if b then 1 else 0))"
| "py_int (PStr s) = (case parse_int s of None \<Rightarrow> Inl ValueError | Some i \<Rightarrow> Inr (PInt i))"
| "py_int PNone = Inl TypeError"
| "py_int (PList xs) = Inl TypeError"
| "py_int (PDict d) = Inl TypeError"

text \<open>\<^verbatim>\<open>sub in s\<close> on strings, and \<^verbatim>\<open>s.split(c)\<close> for a one-character separator.\<close>

fun contains :: "string \<Rightarrow> string \<Rightarrow> bool" where
  "contains sub [] = (sub = [])"
| "contains sub (c # cs) = (prefix sub (c # cs) \<or> contains sub cs)"

fun split_on :: "char \<Rightarrow> string \<Rightarrow> string list" where
  "split_on c [] = [[]]"
| "split_on c (x # xs) =
     (if x = c then [] # split_on c xs
      else (case split_on c xs of [] \<Rightarrow> [[x]] | p # ps \<Rightarrow> (x # p) # ps))"

section \<open>The file system, the remote service and the log\<close>

text \<open>
  A path is the list of its components. The content of a file, and the body of an HTTP
  response, is described by what its readers make of it: \<open>Json v\<close> is text that
  \<^verbatim>\<open>json.loads\<close> turns into \<open>v\<close> (and that \<^verbatim>\<open>json.dump\<close> writes for \<open>v\<close>),
  \<open>Zip ms\<close> is an archive that \<^verbatim>\<open>zipfile.ZipFile\<close> opens, with the members \<open>ms\<close>
  (a member without content is a directory entry), and \<open>Raw s\<close> is any other text, such
  as a translation file: \<^verbatim>\<open>json.loads\<close> raises \<^verbatim>\<open>ValueError\<close> on it and
  \<^verbatim>\<open>zipfile.ZipFile\<close> raises \<^verbatim>\<open>BadZipfile\<close>.
\<close>

type_synonym path = "string list"

datatype blob =
    Raw string
  | Json pyval
  | Zip "(string list \<times> blob option) list"

datatype node = Dir | File blob

text \<open>
  The file system lists every directory and file with its full path; the root \<open>[]\<close> is
  always a directory.
\<close>

type_synonym filesystem = "(path \<times> node) list"

definition isdir :: "filesystem \<Rightarrow> path \<Rightarrow> bool" where
  "isdir files p = (p = [] \<or> map_of files p = Some Dir)"

definition path_exists :: "filesystem \<Rightarrow> path \<Rightarrow> bool" where
  "path_exists files p = (p = [] \<or> map_of files p \<noteq> None)"

definition children :: "filesystem \<Rightarrow> path \<Rightarrow> string list" where
  "children files p =
     remdups (map (\<lambda>(q, n). last q) (filter (\<lambda>(q, n). q \<noteq> [] \<and> butlast q = p) files))"

definition os_listdir :: "filesystem \<Rightarrow> path \<Rightarrow> pyerr + string list" where
  "os_listdir files p = (if isdir files p then Inr (children files p) else Inl OSError)"

definition read_file :: "filesystem \<Rightarrow> path \<Rightarrow> pyerr + blob" where
  "read_file files p = (case map_of files p of Some (File b) \<Rightarrow> Inr b | _ \<Rightarrow> Inl IOError)"

text \<open>
  \<^verbatim>\<open>open(p, 'w')\<close> followed by a write: the parent must be a directory and \<open>p\<close> itself
  must not be one. The entry of \<open>p\<close> is replaced, or added when there is none.
\<close>

definition write_file :: "filesystem \<Rightarrow> path \<Rightarrow> blob \<Rightarrow> pyerr + filesystem" where
  "write_file files p b =
     (if p \<noteq> [] \<and> isdir files (butlast p) \<and> \<not> isdir files p
      then Inr (AList.update p (File b) files) else Inl IOError)"

text \<open>\<^verbatim>\<open>json.loads\<close> of what was read.\<close>

fun json_loads :: "blob \<Rightarrow> pyerr + pyval" where
  "json_loads (Json v) = Inr v"
| "json_loads (Raw s) = Inl ValueError"
| "json_loads (Zip ms) = Inl ValueError"

text \<open>
  \<^verbatim>\<open>os.makedirs\<close>, as the archive extraction uses it: every missing directory on the
  way is created; a regular file on the way raises \<^verbatim>\<open>OSError\<close>.
\<close>

definition ancestors :: "path \<Rightarrow> path list" where
  "ancestors p = map (\<lambda>n. take n p) [1..<Suc (length p)]"

fun make_dirs :: "filesystem \<Rightarrow> path list \<Rightarrow> pyerr + filesystem" where
  "make_dirs files [] = Inr files"
| "make_dirs files (q # qs) =
     (case map_of files q of
        Some (File b) \<Rightarrow> Inl OSError
      | Some Dir \<Rightarrow> make_dirs files qs
      | None \<Rightarrow> make_dirs (files @ [(q, Dir)]) qs)"

text \<open>
  \<^verbatim>\<open>ZipFile.extractall(tmp)\<close>: each member is written below \<open>tmp\<close>, the directories on
  its way created first; an existing file is overwritten. An archive without members
  creates nothing, not even \<open>tmp\<close>.
\<close>

fun extract_member :: "path \<Rightarrow> filesystem \<Rightarrow> string list \<times> blob option \<Rightarrow> pyerr + filesystem" where
  "extract_member tmp files (name, None) = make_dirs files (ancestors (tmp @ name))"
| "extract_member tmp files (name, Some b) =
     and_then (make_dirs files (ancestors (tmp @ butlast name)))
       (\<lambda>files'. write_file files' (tmp @ name) b)"

fun extractall :: "path \<Rightarrow> filesystem \<Rightarrow> (string list \<times> blob option) list \<Rightarrow> pyerr + filesystem" where
  "extractall tmp files [] = Inr files"
| "extractall tmp files (m # ms) =
     and_then (extract_member tmp files m) (\<lambda>files'. extractall tmp files' ms)"

text \<open>\<^verbatim>\<open>shutil.rmtree(p)\<close>: the directory and everything below it is removed.\<close>

definition rmtree :: "filesystem \<Rightarrow> path \<Rightarrow> pyerr + filesystem" where
  "rmtree files p =
     (if isdir files p then Inr (filter (\<lambda>(q, n). \<not> prefix p q) files) else Inl OSError)"

text \<open>
  \<^verbatim>\<open>shutil.copy(src, dst)\<close>: \<open>src\<close> must be a regular file (a directory raises
  \<^verbatim>\<open>IOError\<close>); when \<open>dst\<close> is a directory the file goes into it under its own name.
\<close>

definition shutil_copy :: "filesystem \<Rightarrow> path \<Rightarrow> path \<Rightarrow> pyerr + filesystem" where
  "shutil_copy files src dst =
     (case map_of files src of
        Some (File b) \<Rightarrow> write_file files (if isdir files dst then dst @ [last src] else dst) b
      | _ \<Rightarrow> Inl IOError)"

text \<open>
  \<^verbatim>\<open>glob.glob(os.path.join(base, "*/*.po"))\<close>, for a \<open>base\<close> without wildcard
  characters: every entry two levels below \<open>base\<close> whose name ends in \<^verbatim>\<open>.po\<close>. A
  \<^verbatim>\<open>*\<close> does not match a name that starts with a dot, and a level that cannot be
  listed contributes nothing.
\<close>

definition visible :: "string \<Rightarrow> bool" where
  "visible name = (case name of [] \<Rightarrow> True | c # cs \<Rightarrow> c \<noteq> CHR ''.'')"

definition list_or_empty :: "filesystem \<Rightarrow> path \<Rightarrow> string list" where
  "list_or_empty files p = (case os_listdir files p of Inl e \<Rightarrow> [] | Inr names \<Rightarrow> names)"

definition glob_po :: "filesystem \<Rightarrow> path \<Rightarrow> path list" where
  "glob_po files base =
     concat (map (\<lambda>d. map (\<lambda>f. base @ [d, f])
                        (filter (\<lambda>f. visible f \<and> suffix ''.po'' f) (list_or_empty files (base @ [d]))))
                 (filter visible (list_or_empty files base)))"

text \<open>An HTTP response, and \<^verbatim>\<open>Response.raise_for_status\<close> of the requests library.\<close>

record response =
  status_code :: nat
  content :: blob

definition raise_for_status :: "response \<Rightarrow> pyerr + unit" where
  "raise_for_status r =
     (if 400 \<le> status_code r \<and> status_code r < 600 then Inl (HTTPError (status_code r))
      else Inr ())"

datatype log_entry = LogInfo string | LogError pyerr

text \<open>
  The world a run acts on: the file system, the log, and what the remote service answers
  to a \<^verbatim>\<open>requests.get\<close> of a URL (the call itself raises when no response arrives).
\<close>

record world =
  files_of :: filesystem
  logged :: "log_entry list"
  remote :: "string \<Rightarrow> pyerr + response"

text \<open>
  A statement of the source runs in a world and either returns a value or raises; in both
  cases the world it leaves behind is part of the result, since nothing is rolled back
  when an exception propagates.
\<close>

type_synonym 'a action = "world \<Rightarrow> (pyerr + 'a) \<times> world"

definition io_return :: "'a \<Rightarrow> 'a action" where
  "io_return x = (\<lambda>w. (Inr x, w))"

definition io_lift :: "pyerr + 'a \<Rightarrow> 'a action" where
  "io_lift r = (\<lambda>w. (r, w))"

definition io_bind :: "'a action \<Rightarrow> ('a \<Rightarrow> 'b action) \<Rightarrow> 'b action" where
  "io_bind m f = (\<lambda>w. case m w of (Inl e, w') \<Rightarrow> (Inl e, w') | (Inr x, w') \<Rightarrow> f x w')"

definition on_files :: "(filesystem \<Rightarrow> pyerr + filesystem) \<Rightarrow> unit action" where
  "on_files f =
     (\<lambda>w. case f (files_of w) of Inl e \<Rightarrow> (Inl e, w) | Inr files' \<Rightarrow> (Inr (), w\<lparr>files_of := files'\<rparr>))"

definition from_files :: "(filesystem \<Rightarrow> pyerr + 'a) \<Rightarrow> 'a action" where
  "from_files f = (\<lambda>w. (f (files_of w), w))"

definition logging_info :: "string \<Rightarrow> unit action" where
  "logging_info msg = (\<lambda>w. (Inr (), w\<lparr>logged := logged w @ [LogInfo msg]\<rparr>))"

definition logging_error :: "pyerr \<Rightarrow> unit action" where
  "logging_error e = (\<lambda>w. (Inr (), w\<lparr>logged := logged w @ [LogError e]\<rparr>))"

definition requests_get :: "string \<Rightarrow> response action" where
  "requests_get url = (\<lambda>w. (remote w url, w))"

section \<open>Settings and helpers that the command imports\<close>

text \<open>
  The command reads its paths, the Crowdin project identifiers and the software version
  from the modules \<^verbatim>\<open>settings\<close> and \<^verbatim>\<open>version\<close>. \<open>LOCALE_ROOT\<close> stands for
  \<^verbatim>\<open>settings.LOCALE_PATHS[0]\<close>. \<^verbatim>\<open>os.path.join\<close> appends components to a path; a
  locale code and a file name are one component each. The source builds the path of the
  subtitle counts as \<^verbatim>\<open>SUBTITLES_DATA_ROOT + "subtitle_counts.json"\<close>, which is the file
  of that name in the directory when the setting ends with a separator, as it is taken to
  do here.
\<close>

record settings =
  LOCALE_ROOT :: path
  LANGUAGE_PACK_ROOT :: path
  SUBTITLES_DATA_ROOT :: path
  CROWDIN_PROJECT_ID :: string
  CROWDIN_PROJECT_KEY :: string
  VERSION :: string

text \<open>
  Four functions are imported from modules that are not among the sources
  (\<^verbatim>\<open>utils.general\<close> and \<^verbatim>\<open>shared.i18n\<close>). They are parameters of the model: every
  theorem holds for whatever they compute, and each of them may raise.
  \<^item> \<open>version_diff a b\<close> is the three-way version comparison: negative when \<open>a\<close> is older
    than \<open>b\<close>, zero when they are the same, positive when \<open>a\<close> is newer.
  \<^item> \<open>convert_language_code_format code for_crowdin\<close> translates a locale code between
    the local and the remote format.
  \<^item> \<open>get_language_name code\<close> is the display name of a locale.
  \<^item> \<open>ensure_dir p\<close> makes sure that the directory \<open>p\<close> exists.
\<close>

record helpers =
  version_diff :: "pyval \<Rightarrow> pyval \<Rightarrow> pyerr + int"
  convert_language_code_format :: "string \<Rightarrow> bool \<Rightarrow> pyerr + string"
  get_language_name :: "string \<Rightarrow> pyerr + string"
  ensure_dir :: "path \<Rightarrow> filesystem \<Rightarrow> pyerr + filesystem"

section \<open>The version incrementer\<close>

text \<open>
  \<^verbatim>\<open>increment_crowdin_version(local_meta, crowdin_meta)\<close>. The test of the first branch
  is an \<^verbatim>\<open>or\<close>: the version comparison is only made when the stored
  \<^verbatim>\<open>total_translated\<close> is true as a condition.
\<close>

definition reset_needed :: "helpers \<Rightarrow> settings \<Rightarrow> pyval \<Rightarrow> pyval \<Rightarrow> pyerr + bool" where
  "reset_needed H S local_meta total_translated =
     (if \<not> py_truthy total_translated then Inr True
      else and_then (py_get local_meta ''software_version'') (\<lambda>software_version.
           and_then (version_diff H software_version (PStr (VERSION S))) (\<lambda>d.
           Inr (d < 0))))"

definition increment_crowdin_version :: "helpers \<Rightarrow> settings \<Rightarrow> pyval \<Rightarrow> pyval \<Rightarrow> pyerr + pyval" where
  "increment_crowdin_version H S local_meta crowdin_meta =
     and_then (py_get local_meta ''total_translated'') (\<lambda>total_translated.
     and_then (reset_needed H S local_meta total_translated) (\<lambda>reset.
       if reset then Inr (PInt 1)
       else and_then (py_get crowdin_meta ''approved'') (\<lambda>approved.
         if py_eq total_translated approved then
           and_then (py_get local_meta ''crowdin_version'') (\<lambda>crowdin_version.
             Inr (if py_truthy crowdin_version then crowdin_version else PInt 1))
         else
           and_then (py_get local_meta ''crowdin_version'') (\<lambda>crowdin_version.
             py_add crowdin_version (PInt 1)))))"

section \<open>The metadata merger\<close>

text \<open>
  \<^verbatim>\<open>get_crowdin_meta\<close>: the status request; an error status raises here, since
  \<^verbatim>\<open>raise_for_status\<close> is not inside a \<^verbatim>\<open>try\<close>.
\<close>

definition get_crowdin_meta :: "settings \<Rightarrow> pyval action" where
  "get_crowdin_meta S =
     io_bind (requests_get (''http://api.crowdin.net/api/project/'' @ CROWDIN_PROJECT_ID S
                            @ ''/status?key='' @ CROWDIN_PROJECT_KEY S @ ''&json=True'')) (\<lambda>r.
     io_bind (io_lift (raise_for_status r)) (\<lambda>u.
     io_lift (json_loads (content r))))"

text \<open>
  \<^verbatim>\<open>meta["code"]\<close>: a dictionary without the key raises \<^verbatim>\<open>KeyError\<close>; any other
  value cannot be subscripted with a string and raises \<^verbatim>\<open>TypeError\<close>.
\<close>

fun py_getitem :: "pyval \<Rightarrow> string \<Rightarrow> pyerr + pyval" where
  "py_getitem (PDict d) k = (case fmlookup d k of None \<Rightarrow> Inl KeyError | Some v \<Rightarrow> Inr v)"
| "py_getitem PNone k = Inl TypeError"
| "py_getitem (PBool b) k = Inl TypeError"
| "py_getitem (PInt i) k = Inl TypeError"
| "py_getitem (PStr s) k = Inl TypeError"
| "py_getitem (PList xs) k = Inl TypeError"

text \<open>
  The search of line 158,
  \<^verbatim>\<open>next((meta for meta in crowdin_meta_dict if meta["code"] == convert_language_code_format(lang_code=lang, for_crowdin=True)), None)\<close>:
  the first entry whose code is the locale's remote code, or \<^verbatim>\<open>None\<close>. For each entry
  the subscript is evaluated first, then the helper is called.
\<close>

fun first_match :: "helpers \<Rightarrow> string \<Rightarrow> pyval list \<Rightarrow> pyerr + pyval" where
  "first_match H lang [] = Inr PNone"
| "first_match H lang (meta # metas) =
     and_then (py_getitem meta ''code'') (\<lambda>code.
     and_then (convert_language_code_format H lang True) (\<lambda>converted.
       if py_eq code (PStr converted) then Inr meta else first_match H lang metas))"

text \<open>
  What the generator iterates over is whatever the status request returned. A list gives
  its entries. A dictionary gives its keys and a string its characters, which are strings:
  unless there is none, the subscript of the first one raises \<^verbatim>\<open>TypeError\<close>.
  \<^verbatim>\<open>None\<close> and numbers cannot be iterated.
\<close>

fun find_crowdin_meta :: "helpers \<Rightarrow> string \<Rightarrow> pyval \<Rightarrow> pyerr + pyval" where
  "find_crowdin_meta H lang (PList metas) = first_match H lang metas"
| "find_crowdin_meta H lang (PDict d) = (if d = fmempty then Inr PNone else Inl TypeError)"
| "find_crowdin_meta H lang (PStr s) = (if s = [] then Inr PNone else Inl TypeError)"
| "find_crowdin_meta H lang PNone = Inl TypeError"
| "find_crowdin_meta H lang (PBool b) = Inl TypeError"
| "find_crowdin_meta H lang (PInt i) = Inl TypeError"

definition meta_path :: "settings \<Rightarrow> string \<Rightarrow> path" where
  "meta_path S lang = LOCALE_ROOT S @ [lang, lang @ ''_metadata.json'']"

text \<open>
  Lines 159 to 165: the stored record is loaded; on any failure (no file, a directory, no
  JSON text) a record is made up from the remote entry's code and name.
\<close>

definition read_json :: "path \<Rightarrow> filesystem \<Rightarrow> pyerr + pyval" where
  "read_json p files = and_then (read_file files p) json_loads"

definition load_local_meta :: "settings \<Rightarrow> string \<Rightarrow> pyval \<Rightarrow> filesystem \<Rightarrow> pyerr + pyval" where
  "load_local_meta S lang crowdin_meta files =
     (case read_json (meta_path S lang) files of
        Inr local_meta \<Rightarrow> Inr local_meta
      | Inl e \<Rightarrow>
          and_then (py_get crowdin_meta ''code'') (\<lambda>code.
          and_then (py_get crowdin_meta ''name'') (\<lambda>name.
            Inr (PDict (fmap_of_list [(''code'', code), (''name'', name)])))))"

text \<open>Lines 168 to 172: the number of subtitles, 0 when the index has no entry.\<close>

definition subtitle_count :: "helpers \<Rightarrow> pyval \<Rightarrow> string \<Rightarrow> pyerr + pyval" where
  "subtitle_count H subtitle_counts lang =
     and_then (get_language_name H lang) (\<lambda>name.
     and_then (py_get subtitle_counts name) (\<lambda>entry.
       if py_truthy entry then py_get entry ''count'' else Inr (PInt 0)))"

text \<open>Lines 175 to 182: the dictionary of updated fields, its values computed in order.\<close>

definition updated_metadata ::
  "helpers \<Rightarrow> settings \<Rightarrow> pyval \<Rightarrow> pyval \<Rightarrow> pyval \<Rightarrow> pyerr + (string, pyval) fmap" where
  "updated_metadata H S local_meta crowdin_meta srt_count =
     and_then (and_then (py_get crowdin_meta ''approved_progress'') py_int) (\<lambda>percent.
     and_then (and_then (py_get crowdin_meta ''phrases'') py_int) (\<lambda>phrases.
     and_then (and_then (py_get crowdin_meta ''approved'') py_int) (\<lambda>approved.
     and_then (increment_crowdin_version H S local_meta crowdin_meta) (\<lambda>crowdin_version.
       Inr (fmap_of_list
             [(''percent_translated'', percent),
              (''phrases'', phrases),
              (''approved_translations'', approved),
              (''software_version'', PStr (VERSION S)),
              (''crowdin_version'', crowdin_version),
              (''subtitle_count'', srt_count)])))))"

text \<open>\<^verbatim>\<open>local_meta.update(updated_metadata)\<close>.\<close>

fun py_update :: "pyval \<Rightarrow> (string, pyval) fmap \<Rightarrow> pyerr + pyval" where
  "py_update (PDict d) upd = Inr (PDict (d ++\<^sub>f upd))"
| "py_update PNone upd = Inl AttributeError"
| "py_update (PBool b) upd = Inl AttributeError"
| "py_update (PInt i) upd = Inl AttributeError"
| "py_update (PStr s) upd = Inl AttributeError"
| "py_update (PList xs) upd = Inl AttributeError"

text \<open>
  One pass of the loop of \<^verbatim>\<open>generate_metadata\<close> (lines 154 to 191), for the entry
  \<open>lang\<close> of the locale root. The result is \<open>None\<close> when the entry is skipped, and the
  record that was written and goes into the master file otherwise.
\<close>

definition process_locale ::
  "helpers \<Rightarrow> settings \<Rightarrow> pyval \<Rightarrow> pyval \<Rightarrow> string \<Rightarrow> pyval option action" where
  "process_locale H S crowdin_meta_dict subtitle_counts lang =
     (\<lambda>w.
        if \<not> isdir (files_of w) (LOCALE_ROOT S @ [lang]) then (Inr None, w)
        else
          io_bind (io_lift (find_crowdin_meta H lang crowdin_meta_dict)) (\<lambda>crowdin_meta.
          io_bind (from_files (load_local_meta S lang crowdin_meta)) (\<lambda>local_meta.
          io_bind (io_lift (subtitle_count H subtitle_counts lang)) (\<lambda>srt_count.
          io_bind (io_lift (updated_metadata H S local_meta crowdin_meta srt_count)) (\<lambda>upd.
          io_bind (io_lift (py_update local_meta upd)) (\<lambda>merged.
          io_bind (on_files (\<lambda>files. write_file files (meta_path S lang) (Json merged))) (\<lambda>u.
          io_return (Some merged))))))) w)"

fun metadata_loop ::
  "helpers \<Rightarrow> settings \<Rightarrow> pyval \<Rightarrow> pyval \<Rightarrow> string list \<Rightarrow> pyval list \<Rightarrow> pyval list action" where
  "metadata_loop H S crowdin_meta_dict subtitle_counts [] master_file = io_return master_file"
| "metadata_loop H S crowdin_meta_dict subtitle_counts (lang # langs) master_file =
     io_bind (process_locale H S crowdin_meta_dict subtitle_counts lang) (\<lambda>r.
       metadata_loop H S crowdin_meta_dict subtitle_counts langs
         (case r of None \<Rightarrow> master_file | Some local_meta \<Rightarrow> master_file @ [local_meta]))"

definition generate_metadata :: "helpers \<Rightarrow> settings \<Rightarrow> unit action" where
  "generate_metadata H S =
     io_bind (logging_info ''Generating new po file metadata'') (\<lambda>u.
     io_bind (get_crowdin_meta S) (\<lambda>crowdin_meta_dict.
     io_bind (from_files (read_json (SUBTITLES_DATA_ROOT S @ [''subtitle_counts.json'']))) (\<lambda>subtitle_counts.
     io_bind (from_files (\<lambda>files. os_listdir files (LOCALE_ROOT S))) (\<lambda>langs.
     io_bind (metadata_loop H S crowdin_meta_dict subtitle_counts langs []) (\<lambda>master_file.
     io_bind (on_files (ensure_dir H (LANGUAGE_PACK_ROOT S))) (\<lambda>u.
     io_bind (on_files (\<lambda>files. write_file files
                (LANGUAGE_PACK_ROOT S @ [''language_pack_availability.json''])
                (Json (PList master_file)))) (\<lambda>u.
     logging_info ''Local record of translations updated'')))))))"

text \<open>The keys of \<^verbatim>\<open>updated_metadata\<close>.\<close>

definition updated_keys :: "string set" where
  "updated_keys =
     {''percent_translated'', ''phrases'', ''approved_translations'', ''software_version'',
      ''crowdin_version'', ''subtitle_count''}"

section \<open>The translation fetcher\<close>

text \<open>
  \<^verbatim>\<open>build_translations\<close>: the export request. An error status is caught and logged.
\<close>

definition build_translations :: "string \<Rightarrow> string \<Rightarrow> unit action" where
  "build_translations project_id project_key =
     io_bind (logging_info ''Requesting that CrowdIn build a fresh zip of our translations'') (\<lambda>u.
     io_bind (requests_get (''http://api.crowdin.net/api/project/'' @ project_id
                            @ ''/export?key='' @ project_key)) (\<lambda>r.
       case raise_for_status r of
         Inl e \<Rightarrow> logging_error e
       | Inr u \<Rightarrow> io_return ()))"

text \<open>
  \<^verbatim>\<open>extract_new_po\<close>: the inner loop over the translation files of one language, the
  outer loop over the entries of the scratch directory. The list of files is the result
  of \<^verbatim>\<open>glob.glob\<close> after \<^verbatim>\<open>ensure_dir\<close> has run.
\<close>

fun copy_po_files :: "settings \<Rightarrow> string \<Rightarrow> path list \<Rightarrow> unit action" where
  "copy_po_files S converted_code [] = io_return ()"
| "copy_po_files S converted_code (po_file # po_files) =
     io_bind (on_files (\<lambda>files. shutil_copy files po_file
                (LOCALE_ROOT S @ [converted_code, ''LC_MESSAGES'',
                   if contains ''js'' (last po_file) then ''djangojs.po'' else ''django.po'']))) (\<lambda>u.
     copy_po_files S converted_code po_files)"

fun copy_langs :: "helpers \<Rightarrow> settings \<Rightarrow> path \<Rightarrow> string list \<Rightarrow> unit action" where
  "copy_langs H S tmp_dir_path [] = io_return ()"
| "copy_langs H S tmp_dir_path (lang # langs) =
     io_bind (io_lift (convert_language_code_format H lang False)) (\<lambda>converted_code.
     io_bind (on_files (ensure_dir H (LOCALE_ROOT S @ [converted_code, ''LC_MESSAGES'']))) (\<lambda>u.
     io_bind (from_files (\<lambda>files. Inr (glob_po files (tmp_dir_path @ [lang])))) (\<lambda>po_files.
     io_bind (copy_po_files S converted_code po_files) (\<lambda>u.
     copy_langs H S tmp_dir_path langs))))"

definition extract_new_po :: "helpers \<Rightarrow> settings \<Rightarrow> path \<Rightarrow> unit action" where
  "extract_new_po H S tmp_dir_path =
     io_bind (logging_info ''Unpacking new translations'') (\<lambda>u.
     io_bind (from_files (\<lambda>files. os_listdir files tmp_dir_path)) (\<lambda>langs.
     copy_langs H S tmp_dir_path langs))"

text \<open>\<^verbatim>\<open>zipfile.ZipFile(StringIO.StringIO(r.content))\<close>.\<close>

fun zipfile_ZipFile :: "blob \<Rightarrow> pyerr + (string list \<times> blob option) list" where
  "zipfile_ZipFile (Zip members) = Inr members"
| "zipfile_ZipFile (Raw s) = Inl BadZipfile"
| "zipfile_ZipFile (Json v) = Inl BadZipfile"

text \<open>
  Lines 105 to 115 of \<^verbatim>\<open>download_latest_translations\<close>: what is done with the body of
  the response. The archive is opened, extracted into the scratch directory
  \<^verbatim>\<open>LOCALE_ROOT/tmp\<close>, the translation files are copied, and at the end the scratch
  directory is removed if it exists.
\<close>

definition tmp_dir :: "settings \<Rightarrow> path" where
  "tmp_dir S = LOCALE_ROOT S @ [''tmp'']"

definition clean_up :: "settings \<Rightarrow> unit action" where
  "clean_up S =
     (\<lambda>w. if path_exists (files_of w) (tmp_dir S)
           then on_files (\<lambda>files. rmtree files (tmp_dir S)) w
           else (Inr (), w))"

definition unpack_and_copy :: "helpers \<Rightarrow> settings \<Rightarrow> blob \<Rightarrow> unit action" where
  "unpack_and_copy H S body =
     io_bind (io_lift (zipfile_ZipFile body)) (\<lambda>z.
     io_bind (on_files (\<lambda>files. extractall (tmp_dir S) files z)) (\<lambda>u.
     io_bind (extract_new_po H S (tmp_dir S)) (\<lambda>u.
     clean_up S)))"

text \<open>
  \<^verbatim>\<open>download_latest_translations(project_id, project_key, language_code)\<close>. The export
  is requested with the identifiers of the settings (\<^verbatim>\<open>build_translations()\<close> is
  called without arguments). The \<^verbatim>\<open>try\<close> around \<^verbatim>\<open>raise_for_status\<close> has an
  \<^verbatim>\<open>except\<close> branch that logs the exception and an \<^verbatim>\<open>else\<close> branch that logs the
  success; after either, the function goes on with the body of the response.
\<close>

definition download_latest_translations ::
  "helpers \<Rightarrow> settings \<Rightarrow> string \<Rightarrow> string \<Rightarrow> string \<Rightarrow> unit action" where
  "download_latest_translations H S project_id project_key language_code =
     io_bind (build_translations (CROWDIN_PROJECT_ID S) (CROWDIN_PROJECT_KEY S)) (\<lambda>u.
     io_bind (logging_info ''Attempting to download a zip archive of current translations'') (\<lambda>u.
     io_bind (requests_get (''http://api.crowdin.net/api/project/'' @ project_id
                            @ ''/download/'' @ language_code @ ''.zip?key='' @ project_key)) (\<lambda>r.
     io_bind (case raise_for_status r of
                Inl e \<Rightarrow> logging_error e
              | Inr u \<Rightarrow> logging_info ''Successfully downloaded zip archive'') (\<lambda>u.
     unpack_and_copy H S (content r)))))"

section \<open>Concrete helpers and settings for the examples\<close>

text \<open>
  Modelled from the spec: \<^verbatim>\<open>version_diff\<close> of \<^verbatim>\<open>utils.general\<close> is not among the
  sources. The spec calls it a three-way comparator returning negative, zero or positive;
  here it compares dotted version strings component by component and returns the
  difference of the first components that differ.
\<close>

fun compare_parts :: "int list \<Rightarrow> int list \<Rightarrow> int" where
  "compare_parts [] [] = 0"
| "compare_parts [] (y # ys) = - 1"
| "compare_parts (x # xs) [] = 1"
| "compare_parts (x # xs) (y # ys) = (if x = y then compare_parts xs ys else x - y)"

definition version_parts :: "string \<Rightarrow> int list option" where
  "version_parts s = those (map parse_int (split_on CHR ''.'' s))"

fun version_diff_model :: "pyval \<Rightarrow> pyval \<Rightarrow> pyerr + int" where
  "version_diff_model (PStr a) (PStr b) =
     (case (version_parts a, version_parts b) of
        (Some xs, Some ys) \<Rightarrow> Inr (compare_parts xs ys)
      | _ \<Rightarrow> Inl ValueError)"
| "version_diff_model a b = Inl TypeError"

text \<open>
  Modelled from the spec: \<^verbatim>\<open>convert_language_code_format\<close> and
  \<^verbatim>\<open>get_language_name\<close> of \<^verbatim>\<open>shared.i18n\<close> and \<^verbatim>\<open>ensure_dir\<close> of
  \<^verbatim>\<open>utils.general\<close> are not among the sources. The spec describes them as the
  translation of a locale code between the local and the remote format (here: an
  underscore locally, a hyphen remotely), the display name of a locale (here: a table of
  three names) and the guarantee that a directory exists (here: \<^verbatim>\<open>os.makedirs\<close>
  unless it exists).
\<close>

definition convert_language_code_format_model :: "string \<Rightarrow> bool \<Rightarrow> pyerr + string" where
  "convert_language_code_format_model code for_crowdin =
     Inr (if for_crowdin then map (\<lambda>c. if c = CHR ''_'' then CHR ''-'' else c) code
          else map (\<lambda>c. if c = CHR ''-'' then CHR ''_'' else c) code)"

definition get_language_name_model :: "string \<Rightarrow> pyerr + string" where
  "get_language_name_model code =
     Inr (if code = ''es'' then ''Spanish'' else if code = ''de'' then ''German''
          else if code = ''pt_BR'' then ''Portuguese, Brazilian'' else code)"

definition ensure_dir_model :: "path \<Rightarrow> filesystem \<Rightarrow> pyerr + filesystem" where
  "ensure_dir_model p files = make_dirs files (ancestors p)"

definition example_helpers :: helpers where
  "example_helpers =
     \<lparr>version_diff = version_diff_model,
      convert_language_code_format = convert_language_code_format_model,
      get_language_name = get_language_name_model,
      ensure_dir = ensure_dir_model\<rparr>"

definition example_settings :: "string \<Rightarrow> settings" where
  "example_settings v =
     \<lparr>LOCALE_ROOT = [''locale''],
      LANGUAGE_PACK_ROOT = [''static'', ''language_packs''],
      SUBTITLES_DATA_ROOT = [''data'', ''subtitledata''],
      CROWDIN_PROJECT_ID = ''ka-lite'',
      CROWDIN_PROJECT_KEY = ''secret'',
      VERSION = v\<rparr>"

text \<open>
  A small installation for the examples: the locale \<^verbatim>\<open>es\<close> has a stored record (with a
  field \<^verbatim>\<open>notes\<close> that the pipeline knows nothing about), \<^verbatim>\<open>de\<close> has none, and
  \<^verbatim>\<open>fr\<close> is unknown to the remote service.
\<close>

definition example_prior_es :: "(string, pyval) fmap" where
  "example_prior_es =
     fmap_of_list
       [(''code'', PStr ''es''), (''name'', PStr ''Spanish''),
        (''total_translated'', PInt 80), (''crowdin_version'', PInt 3),
        (''software_version'', PStr ''1.0''), (''notes'', PStr ''reviewed'')]"

definition example_files :: filesystem where
  "example_files =
     [([''locale''], Dir),
      ([''locale'', ''es''], Dir),
      ([''locale'', ''es'', ''es_metadata.json''], File (Json (PDict example_prior_es))),
      ([''locale'', ''de''], Dir),
      ([''locale'', ''fr''], Dir),
      ([''data''], Dir),
      ([''data'', ''subtitledata''], Dir),
      ([''data'', ''subtitledata'', ''subtitle_counts.json''],
         File (Json (PDict (fmap_of_list
           [(''Spanish'', PDict (fmap_of_list [(''count'', PInt 12)]))]))))]"

definition example_status :: pyval where
  "example_status =
     PList
       [PDict (fmap_of_list
          [(''code'', PStr ''es''), (''name'', PStr ''Spanish''), (''phrases'', PInt 100),
           (''approved'', PInt 95), (''approved_progress'', PInt 95)]),
        PDict (fmap_of_list
          [(''code'', PStr ''de''), (''name'', PStr ''German''), (''phrases'', PInt 100),
           (''approved'', PInt 40), (''approved_progress'', PInt 40)])]"

definition example_subtitle_counts :: pyval where
  "example_subtitle_counts =
     PDict (fmap_of_list [(''Spanish'', PDict (fmap_of_list [(''count'', PInt 12)]))])"

text \<open>
  The remote service of the examples answers the export and the status request with
  status 200, and the download request with the status and the body given.
\<close>

definition example_remote :: "nat \<Rightarrow> blob \<Rightarrow> string \<Rightarrow> pyerr + response" where
  "example_remote download_status download_body url =
     (if url = ''http://api.crowdin.net/api/project/ka-lite/download/all.zip?key=secret''
      then Inr \<lparr>status_code = download_status, content = download_body\<rparr>
      else if url = ''http://api.crowdin.net/api/project/ka-lite/status?key=secret&json=True''
      then Inr \<lparr>status_code = 200, content = Json example_status\<rparr>
      else if url = ''http://api.crowdin.net/api/project/ka-lite/export?key=secret''
      then Inr \<lparr>status_code = 200, content = Raw ''<success/>''\<rparr>
      else Inl ConnectionError)"

definition example_world :: "nat \<Rightarrow> blob \<Rightarrow> world" where
  "example_world download_status download_body =
     \<lparr>files_of = example_files, logged = [],
      remote = example_remote download_status download_body\<rparr>"

text \<open>
  Two archives for the examples: one with the interface and the script translations of
  \<^verbatim>\<open>es\<close>, and one that also has a directory entry whose name ends in \<^verbatim>\<open>.po\<close>.
\<close>

definition example_archive :: blob where
  "example_archive =
     Zip [([''es'', ''versioned'', ''django.po''], Some (Raw ''msgid hello'')),
          ([''es'', ''versioned'', ''djangojs.po''], Some (Raw ''msgid script''))]"

definition example_archive_with_directory :: blob where
  "example_archive_with_directory =
     Zip [([''es'', ''versioned'', ''django.po''], Some (Raw ''msgid hello'')),
          ([''es'', ''versioned'', ''old.po''], None)]"

section \<open>Properties of the version incrementer\<close>

text \<open>
  On a dictionary the lookups of \<^verbatim>\<open>increment_crowdin_version\<close> cannot raise, which
  leaves the three branches of the source.
\<close>

lemma increment_crowdin_version_dict:
  "increment_crowdin_version H S (PDict prev) status =
     and_then (reset_needed H S (PDict prev) (dict_get prev ''total_translated'')) (\<lambda>reset.
       if reset then Inr (PInt 1)
       else and_then (py_get status ''approved'') (\<lambda>approved.
         if py_eq (dict_get prev ''total_translated'') approved then
           Inr (if py_truthy (dict_get prev ''crowdin_version'')
                then dict_get prev ''crowdin_version'' else PInt 1)
         else py_add (dict_get prev ''crowdin_version'') (PInt 1)))"
  by (auto simp: increment_crowdin_version_def and_then_def split: sum.splits)

lemma reset_needed_falsy:
  "\<not> py_truthy t \<Longrightarrow> reset_needed H S m t = Inr True"
  by (simp add: reset_needed_def)

lemma reset_needed_truthy:
  "py_truthy t \<Longrightarrow> version_diff H (dict_get prev ''software_version'') (PStr (VERSION S)) = Inr d
   \<Longrightarrow> reset_needed H S (PDict prev) t = Inr (d < 0)"
  by (simp add: reset_needed_def and_then_def)

lemma reset_needed_cases:
  assumes "reset_needed H S (PDict prev) t = Inr b"
  shows "b = (\<not> py_truthy t \<or>
              (\<exists>d. version_diff H (dict_get prev ''software_version'') (PStr (VERSION S)) = Inr d \<and> d < 0))"
  using assms
  by (auto simp: reset_needed_def and_then_def split: if_splits sum.splits)

lemmas example_eval =
  example_helpers_def example_settings_def dict_get_def and_then_def
  version_parts_def parse_int_def strip_def is_space_def digit_val_def py_eq_def

text \<open>
  Claim C8. Whatever the remote status is (even a missing one), the function returns 1
  when the previous record has no \<^verbatim>\<open>total_translated\<close> (the key is missing or holds
  \<^verbatim>\<open>None\<close>), and when the comparator reports the recorded software version as older
  than the running one. On a first run the previous record is the one that
  \<^verbatim>\<open>generate_metadata\<close> makes up from the remote code and name, which has no
  \<^verbatim>\<open>total_translated\<close>: the witness below is that case.
\<close>

theorem increment_crowdin_version_returns_one:
  assumes "dict_get prev ''total_translated'' = PNone
           \<or> (\<exists>d. version_diff H (dict_get prev ''software_version'') (PStr (VERSION S)) = Inr d \<and> d < 0)"
  shows "increment_crowdin_version H S (PDict prev) status = Inr (PInt 1)"
proof (cases "py_truthy (dict_get prev ''total_translated'')")
  case False
  then show ?thesis
    by (simp add: increment_crowdin_version_dict reset_needed_falsy and_then_def)
next
  case True
  with assms obtain d where
    "version_diff H (dict_get prev ''software_version'') (PStr (VERSION S)) = Inr d" "d < 0"
    by auto
  with True show ?thesis
    by (simp add: increment_crowdin_version_dict reset_needed_truthy and_then_def)
qed

theorem increment_crowdin_version_returns_one_witness:
  "dict_get (fmap_of_list [(''code'', PStr ''es''), (''name'', PStr ''Spanish'')]) ''total_translated'' = PNone
   \<and> increment_crowdin_version example_helpers (example_settings ''1.0'')
         (PDict (fmap_of_list [(''code'', PStr ''es''), (''name'', PStr ''Spanish'')]))
         (PDict (fmap_of_list [(''approved'', PInt 80), (''approved_progress'', PInt 80),
                               (''phrases'', PInt 100)]))
       = Inr (PInt 1)"
  using increment_crowdin_version_returns_one
    [of "fmap_of_list [(''code'', PStr ''es''), (''name'', PStr ''Spanish'')]"
        example_helpers "example_settings ''1.0''"
        "PDict (fmap_of_list [(''approved'', PInt 80), (''approved_progress'', PInt 80),
                               (''phrases'', PInt 100)])"]
  by (simp add: dict_get_def)

text \<open>
  Claim C10. A record whose \<^verbatim>\<open>total_translated\<close> is 0 is treated like the same
  record without the key: both give 1, whatever the stored \<^verbatim>\<open>crowdin_version\<close>, the
  software versions and the remote status are (the comparator is not even called).
\<close>

theorem zero_total_translated_is_unrecorded:
  assumes "fmlookup prev ''total_translated'' = Some (PInt 0)"
  shows "increment_crowdin_version H S (PDict prev) status = Inr (PInt 1)
       \<and> increment_crowdin_version H S (PDict (fmdrop ''total_translated'' prev)) status = Inr (PInt 1)"
  using assms
  by (simp add: increment_crowdin_version_dict reset_needed_falsy and_then_def dict_get_def)

theorem zero_total_translated_is_unrecorded_witness:
  "fmlookup (fmap_of_list [(''total_translated'', PInt 0), (''crowdin_version'', PInt 3),
                           (''software_version'', PStr ''1.0'')]) ''total_translated'' = Some (PInt 0)
   \<and> increment_crowdin_version example_helpers (example_settings ''1.0'')
         (PDict (fmap_of_list [(''total_translated'', PInt 0), (''crowdin_version'', PInt 3),
                               (''software_version'', PStr ''1.0'')]))
         (PDict (fmap_of_list [(''approved'', PInt 5)]))
       = Inr (PInt 1)"
  using zero_total_translated_is_unrecorded
    [of "fmap_of_list [(''total_translated'', PInt 0), (''crowdin_version'', PInt 3),
                       (''software_version'', PStr ''1.0'')]"
        example_helpers "example_settings ''1.0''" "PDict (fmap_of_list [(''approved'', PInt 5)])"]
  by simp

text \<open>
  Claim C4, as stated, says that equal counts alone make the function return the stored
  \<^verbatim>\<open>crowdin_version\<close>. The first branch of the source is tested before: with equal
  counts (80 and 80) and a recorded software version 1.0 older than the running 1.1, the
  result is 1 and not the stored 3.
\<close>

theorem equal_count_counterexample:
  "py_eq (PInt 80) (PInt 80)
   \<and> increment_crowdin_version example_helpers (example_settings ''1.1'')
         (PDict (fmap_of_list [(''total_translated'', PInt 80), (''crowdin_version'', PInt 3),
                               (''software_version'', PStr ''1.0'')]))
         (PDict (fmap_of_list [(''approved'', PInt 80), (''approved_progress'', PInt 80),
                               (''phrases'', PInt 100)]))
       = Inr (PInt 1)"
  by (simp add: increment_crowdin_version_def reset_needed_def example_eval)

text \<open>
  Claim C4, amended. When the recorded \<^verbatim>\<open>total_translated\<close> is true as a condition
  (present and not zero), the recorded software version is not older than the running
  one, and the recorded count equals the approved count of the remote status, the
  function returns the stored \<^verbatim>\<open>crowdin_version\<close> unchanged if that is true as a
  condition (present and not zero), and 1 otherwise.
\<close>

theorem unchanged_count_keeps_version:
  assumes "py_truthy (dict_get prev ''total_translated'')"
      and "version_diff H (dict_get prev ''software_version'') (PStr (VERSION S)) = Inr d"
      and "0 \<le> d"
      and "py_eq (dict_get prev ''total_translated'') (dict_get status ''approved'')"
  shows "increment_crowdin_version H S (PDict prev) (PDict status) =
           Inr (if py_truthy (dict_get prev ''crowdin_version'')
                then dict_get prev ''crowdin_version'' else PInt 1)"
  using assms
  by (simp add: increment_crowdin_version_dict reset_needed_truthy and_then_def)

theorem unchanged_count_keeps_version_witness:
  "py_truthy (PInt 80)
   \<and> version_diff example_helpers (PStr ''1.0'') (PStr (VERSION (example_settings ''1.0''))) = Inr 0
   \<and> py_eq (PInt 80) (PInt 80)
   \<and> increment_crowdin_version example_helpers (example_settings ''1.0'')
         (PDict (fmap_of_list [(''total_translated'', PInt 80), (''crowdin_version'', PInt 3),
                               (''software_version'', PStr ''1.0'')]))
         (PDict (fmap_of_list [(''approved'', PInt 80), (''approved_progress'', PInt 80),
                               (''phrases'', PInt 100)]))
       = Inr (PInt 3)"
  using unchanged_count_keeps_version
    [of "fmap_of_list [(''total_translated'', PInt 80), (''crowdin_version'', PInt 3),
                       (''software_version'', PStr ''1.0'')]"
        example_helpers "example_settings ''1.0''" 0
        "fmap_of_list [(''approved'', PInt 80), (''approved_progress'', PInt 80),
                       (''phrases'', PInt 100)]"]
  by (simp add: example_eval)

text \<open>
  Claim C5, as stated, covers every record with a recorded count that differs from the
  approved count. A recorded count of 0 differs from an approved count of 5, the software
  version is the same, and the result is 1, not 3 + 1.
\<close>

theorem changed_count_counterexample:
  "\<not> py_eq (PInt 0) (PInt 5)
   \<and> version_diff example_helpers (PStr ''1.0'') (PStr (VERSION (example_settings ''1.0''))) = Inr 0
   \<and> increment_crowdin_version example_helpers (example_settings ''1.0'')
         (PDict (fmap_of_list [(''total_translated'', PInt 0), (''crowdin_version'', PInt 3),
                               (''software_version'', PStr ''1.0'')]))
         (PDict (fmap_of_list [(''approved'', PInt 5), (''approved_progress'', PInt 5),
                               (''phrases'', PInt 100)]))
       = Inr (PInt 1)"
  by (simp add: increment_crowdin_version_def reset_needed_def example_eval)

text \<open>
  Claim C5, amended. When the recorded \<^verbatim>\<open>total_translated\<close> is true as a condition
  (present and not zero) and differs from the approved count, the recorded software
  version is not older than the running one, and the stored \<^verbatim>\<open>crowdin_version\<close> is
  an integer \<open>c\<close>, the function returns exactly \<open>c + 1\<close>.
\<close>

theorem changed_count_increments_version:
  assumes "py_truthy (dict_get prev ''total_translated'')"
      and "version_diff H (dict_get prev ''software_version'') (PStr (VERSION S)) = Inr d"
      and "0 \<le> d"
      and "\<not> py_eq (dict_get prev ''total_translated'') (dict_get status ''approved'')"
      and "dict_get prev ''crowdin_version'' = PInt c"
  shows "increment_crowdin_version H S (PDict prev) (PDict status) = Inr (PInt (c + 1))"
  using assms
  by (simp add: increment_crowdin_version_dict reset_needed_truthy and_then_def)

theorem changed_count_increments_version_witness:
  "py_truthy (PInt 80)
   \<and> version_diff example_helpers (PStr ''1.0'') (PStr (VERSION (example_settings ''1.0''))) = Inr 0
   \<and> \<not> py_eq (PInt 80) (PInt 95)
   \<and> increment_crowdin_version example_helpers (example_settings ''1.0'')
         (PDict (fmap_of_list [(''total_translated'', PInt 80), (''crowdin_version'', PInt 3),
                               (''software_version'', PStr ''1.0'')]))
         (PDict (fmap_of_list [(''approved'', PInt 95), (''approved_progress'', PInt 95),
                               (''phrases'', PInt 100)]))
       = Inr (PInt 4)"
  using changed_count_increments_version
    [of "fmap_of_list [(''total_translated'', PInt 80), (''crowdin_version'', PInt 3),
                       (''software_version'', PStr ''1.0'')]"
        example_helpers "example_settings ''1.0''" 0
        "fmap_of_list [(''approved'', PInt 95), (''approved_progress'', PInt 95),
                       (''phrases'', PInt 100)]" 3]
  by (simp add: example_eval)

text \<open>
  Claim C3, as stated, lets \<^verbatim>\<open>crowdin_version\<close> go down only when the software
  version changes. A record of the shape the pipeline writes (it has no
  \<^verbatim>\<open>total_translated\<close>) with \<^verbatim>\<open>crowdin_version\<close> 5 is followed, under the same
  software version, by a record with \<^verbatim>\<open>crowdin_version\<close> 1.
\<close>

theorem crowdin_version_drop_counterexample:
  "version_diff example_helpers (PStr ''1.0'') (PStr (VERSION (example_settings ''1.0''))) = Inr 0
   \<and> increment_crowdin_version example_helpers (example_settings ''1.0'')
         (PDict (fmap_of_list [(''code'', PStr ''es''), (''name'', PStr ''Spanish''),
                               (''percent_translated'', PInt 80), (''phrases'', PInt 100),
                               (''approved_translations'', PInt 80),
                               (''software_version'', PStr ''1.0''),
                               (''crowdin_version'', PInt 5), (''subtitle_count'', PInt 0)]))
         (PDict (fmap_of_list [(''code'', PStr ''es''), (''name'', PStr ''Spanish''),
                               (''approved'', PInt 80), (''approved_progress'', PInt 80),
                               (''phrases'', PInt 100)]))
       = Inr (PInt 1)
   \<and> (1::int) < 5"
  by (simp add: increment_crowdin_version_def reset_needed_def example_eval)

text \<open>
  Claim C3, amended. From a record with an integer \<^verbatim>\<open>crowdin_version\<close> \<open>c\<close> to the
  next, the new \<^verbatim>\<open>crowdin_version\<close> is an integer that is at least \<open>c\<close>, or it is
  1 and the first branch was taken: the previous record has no \<^verbatim>\<open>total_translated\<close>
  (or a zero one), or the comparator reports the recorded software version as older than
  the running one.
\<close>

theorem crowdin_version_monotone_unless_reset:
  assumes "dict_get prev ''crowdin_version'' = PInt c"
      and "increment_crowdin_version H S (PDict prev) status = Inr new"
  shows "\<exists>c'. new = PInt c' \<and>
           (c \<le> c' \<or>
            c' = 1 \<and> (\<not> py_truthy (dict_get prev ''total_translated'')
                        \<or> (\<exists>d. version_diff H (dict_get prev ''software_version'') (PStr (VERSION S)) = Inr d
                                 \<and> d < 0)))"
proof -
  from assms(2) obtain b where b: "reset_needed H S (PDict prev) (dict_get prev ''total_translated'') = Inr b"
    by (auto simp: increment_crowdin_version_dict and_then_def split: sum.splits)
  show ?thesis
  proof (cases b)
    case True
    with b assms(2) have "new = PInt 1"
      by (simp add: increment_crowdin_version_dict and_then_def)
    moreover from True reset_needed_cases[OF b]
    have "\<not> py_truthy (dict_get prev ''total_translated'')
          \<or> (\<exists>d. version_diff H (dict_get prev ''software_version'') (PStr (VERSION S)) = Inr d \<and> d < 0)"
      by simp
    ultimately show ?thesis by blast
  next
    case False
    with b assms show ?thesis
      by (auto simp: increment_crowdin_version_dict and_then_def split: sum.splits if_splits)
  qed
qed

theorem crowdin_version_monotone_unless_reset_witness:
  "increment_crowdin_version example_helpers (example_settings ''1.0'')
         (PDict (fmap_of_list [(''total_translated'', PInt 80), (''crowdin_version'', PInt 3),
                               (''software_version'', PStr ''1.0'')]))
         (PDict (fmap_of_list [(''approved'', PInt 95), (''approved_progress'', PInt 95),
                               (''phrases'', PInt 100)]))
       = Inr (PInt 4)
   \<and> (\<exists>c'. PInt 4 = PInt c' \<and> 3 \<le> c')"
proof -
  have run: "increment_crowdin_version example_helpers (example_settings ''1.0'')
         (PDict (fmap_of_list [(''total_translated'', PInt 80), (''crowdin_version'', PInt 3),
                               (''software_version'', PStr ''1.0'')]))
         (PDict (fmap_of_list [(''approved'', PInt 95), (''approved_progress'', PInt 95),
                               (''phrases'', PInt 100)]))
       = Inr (PInt 4)"
    by (simp add: increment_crowdin_version_def reset_needed_def example_eval)
  have old: "dict_get (fmap_of_list [(''total_translated'', PInt 80), (''crowdin_version'', PInt 3),
                               (''software_version'', PStr ''1.0'')]) ''crowdin_version'' = PInt 3"
    by (simp add: dict_get_def)
  from crowdin_version_monotone_unless_reset [OF old run]
  show ?thesis using run by auto
qed

section \<open>Properties of the metadata merger\<close>

text \<open>
  What is written can be read back, the dictionary of updated fields has exactly the six
  keys of the source, and a pass of the loop that returns a record has gone through every
  step.
\<close>

lemma read_after_write:
  "write_file files p b = Inr files' \<Longrightarrow> read_file files' p = Inr b"
  by (auto simp: write_file_def read_file_def update_conv' split: if_splits)

lemma updated_metadata_keys:
  "updated_metadata H S local_meta crowdin_meta srt_count = Inr upd \<Longrightarrow> fmdom' upd = updated_keys"
  by (auto simp: updated_metadata_def and_then_def updated_keys_def split: sum.splits)

lemma py_update_Inr:
  "py_update local_meta upd = Inr merged \<Longrightarrow>
     \<exists>d. local_meta = PDict d \<and> merged = PDict (d ++\<^sub>f upd)"
  by (cases local_meta) auto

lemma process_locale_success:
  assumes "process_locale H S crowdin_meta_dict subtitle_counts lang w = (Inr (Some merged), w')"
  shows "\<exists>crowdin_meta local srt_count upd.
           find_crowdin_meta H lang crowdin_meta_dict = Inr crowdin_meta
         \<and> load_local_meta S lang crowdin_meta (files_of w) = Inr (PDict local)
         \<and> updated_metadata H S (PDict local) crowdin_meta srt_count = Inr upd
         \<and> merged = PDict (local ++\<^sub>f upd)
         \<and> write_file (files_of w) (meta_path S lang) (Json merged) = Inr (files_of w')"
  using assms
  by (fastforce simp: process_locale_def io_bind_def io_lift_def from_files_def on_files_def io_return_def
           split: if_splits sum.splits prod.splits dest!: py_update_Inr)


text \<open>
  A lookup with \<^verbatim>\<open>get\<close> either returns or raises \<^verbatim>\<open>AttributeError\<close>, and so
  does the subtitle count once the display name is known; without a remote entry the
  dictionary of updated fields is never built.
\<close>

lemma py_get_outcome:
  "py_get v k = Inl AttributeError \<or> (\<exists>x. py_get v k = Inr x)"
  by (cases v) simp_all

lemma subtitle_count_outcome:
  assumes "get_language_name H lang = Inr name"
  shows "subtitle_count H subtitle_counts lang = Inl AttributeError
         \<or> (\<exists>c. subtitle_count H subtitle_counts lang = Inr c)"
proof (cases "py_get subtitle_counts name")
  case (Inl e)
  with py_get_outcome[of subtitle_counts name] assms show ?thesis
    by (simp add: subtitle_count_def and_then_def)
next
  case (Inr entry)
  with py_get_outcome[of entry "''count''"] assms show ?thesis
    by (auto simp: subtitle_count_def and_then_def)
qed

lemma updated_metadata_without_status:
  "updated_metadata H S local_meta PNone srt_count = Inl AttributeError"
  by (simp add: updated_metadata_def and_then_def)

lemmas world_eval = process_locale_def io_bind_def io_lift_def io_return_def from_files_def on_files_def
  example_world_def example_files_def example_status_def example_subtitle_counts_def example_prior_es_def
  isdir_def read_file_def read_json_def write_file_def meta_path_def load_local_meta_def
  subtitle_count_def updated_metadata_def increment_crowdin_version_def reset_needed_def
  example_helpers_def example_settings_def dict_get_def and_then_def
  version_parts_def parse_int_def strip_def is_space_def digit_val_def py_eq_def
  convert_language_code_format_model_def get_language_name_model_def

lemma example_es_run:
  "fst (process_locale example_helpers (example_settings ''1.0'') example_status
          example_subtitle_counts ''es'' (example_world 200 (Raw [])))
   = Inr (Some (PDict (example_prior_es ++\<^sub>f
        fmap_of_list
          [(''percent_translated'', PInt 95), (''phrases'', PInt 100),
           (''approved_translations'', PInt 95), (''software_version'', PStr ''1.0''),
           (''crowdin_version'', PInt 4), (''subtitle_count'', PInt 12)])))"
  by (simp add: world_eval)

lemma example_es_prior:
  "read_json (meta_path (example_settings ''1.0'') ''es'') (files_of (example_world 200 (Raw [])))
   = Inr (PDict example_prior_es)"
  by (simp add: world_eval)



text \<open>
  Claim C9. When the stored record of a locale is loaded and the pass of the loop writes
  the merged record, every key outside the six updated ones has in the merged record
  (and so in the file) what it had in the stored record: the same value, or no value.
\<close>

theorem merge_preserves_other_fields:
  assumes "read_json (meta_path S lang) (files_of w) = Inr (PDict prior)"
      and "process_locale H S crowdin_meta_dict subtitle_counts lang w = (Inr (Some merged), w')"
      and "k \<notin> updated_keys"
  shows "\<exists>m. merged = PDict m \<and> fmlookup m k = fmlookup prior k
            \<and> read_file (files_of w') (meta_path S lang) = Inr (Json merged)"
proof -
  from process_locale_success[OF assms(2)] obtain crowdin_meta local srt_count upd where
    loaded: "load_local_meta S lang crowdin_meta (files_of w) = Inr (PDict local)" and
    upd: "updated_metadata H S (PDict local) crowdin_meta srt_count = Inr upd" and
    merged: "merged = PDict (local ++\<^sub>f upd)" and
    written: "write_file (files_of w) (meta_path S lang) (Json merged) = Inr (files_of w')"
    by blast
  from loaded assms(1) have "local = prior"
    by (simp add: load_local_meta_def)
  moreover from upd assms(3) have "k \<notin> fmdom' upd"
    by (simp add: updated_metadata_keys)
  ultimately have "fmlookup (local ++\<^sub>f upd) k = fmlookup prior k"
    by (auto simp: fmdom'_alt_def)
  with merged read_after_write[OF written] show ?thesis by blast
qed

theorem merge_preserves_other_fields_witness:
  "read_json (meta_path (example_settings ''1.0'') ''es'') (files_of (example_world 200 (Raw [])))
     = Inr (PDict example_prior_es)
   \<and> (\<exists>merged w'. process_locale example_helpers (example_settings ''1.0'') example_status
          example_subtitle_counts ''es'' (example_world 200 (Raw [])) = (Inr (Some (PDict merged)), w')
        \<and> fmlookup merged ''notes'' = Some (PStr ''reviewed'')
        \<and> fmlookup merged ''total_translated'' = Some (PInt 80))
   \<and> ''notes'' \<notin> updated_keys \<and> ''total_translated'' \<notin> updated_keys"
proof -
  let ?run = "process_locale example_helpers (example_settings ''1.0'') example_status
          example_subtitle_counts ''es'' (example_world 200 (Raw []))"
  let ?merged = "example_prior_es ++\<^sub>f
        fmap_of_list
          [(''percent_translated'', PInt 95), (''phrases'', PInt 100),
           (''approved_translations'', PInt 95), (''software_version'', PStr ''1.0''),
           (''crowdin_version'', PInt 4), (''subtitle_count'', PInt 12)]"
  have run: "?run = (Inr (Some (PDict ?merged)), snd ?run)"
    using example_es_run by (simp add: prod_eq_iff)
  have k1: "''notes'' \<notin> updated_keys" and tt: "''total_translated'' \<notin> updated_keys"
    by (simp_all add: updated_keys_def)
  from merge_preserves_other_fields [OF example_es_prior run k1]
  have "fmlookup ?merged ''notes'' = fmlookup example_prior_es ''notes''" by auto
  moreover from merge_preserves_other_fields [OF example_es_prior run tt]
  have "fmlookup ?merged ''total_translated'' = fmlookup example_prior_es ''total_translated''" by auto
  ultimately have "fmlookup ?merged ''notes'' = Some (PStr ''reviewed'')"
    and "fmlookup ?merged ''total_translated'' = Some (PInt 80)"
    by (simp_all add: example_prior_es_def)
  with run example_es_prior k1 tt show ?thesis by blast
qed

lemma example_generate_metadata:
  "fst (generate_metadata example_helpers (example_settings ''1.0'') (example_world 200 example_archive))
     = Inl AttributeError"
  by (simp add: generate_metadata_def get_crowdin_meta_def logging_info_def requests_get_def
        raise_for_status_def example_remote_def os_listdir_def children_def world_eval)

text \<open>
  Claim C7. For a directory of the locale root with no entry in the remote status list
  (the search of line 158 ends with \<^verbatim>\<open>None\<close>), the pass of the loop raises
  \<^verbatim>\<open>AttributeError\<close>, writes nothing, and the loop ends there with that exception.
  Without a stored record the exception comes from line 163; with one it comes from the
  lookups of lines 168 to 176, which are reached once \<^verbatim>\<open>get_language_name\<close>, a helper
  that is not among the sources, has returned the display name. In the example
  installation the directory \<^verbatim>\<open>fr\<close> has no remote entry, and the whole of
  \<^verbatim>\<open>generate_metadata\<close> ends with the exception.
\<close>

theorem unmatched_locale_raises:
  assumes "isdir (files_of w) (LOCALE_ROOT S @ [lang])"
      and "find_crowdin_meta H lang crowdin_meta_dict = Inr PNone"
      and "(\<exists>e. read_json (meta_path S lang) (files_of w) = Inl e)
           \<or> (\<exists>name. get_language_name H lang = Inr name)"
  shows "process_locale H S crowdin_meta_dict subtitle_counts lang w = (Inl AttributeError, w)
       \<and> metadata_loop H S crowdin_meta_dict subtitle_counts (lang # langs) master_file w
           = (Inl AttributeError, w)"
proof -
  have "process_locale H S crowdin_meta_dict subtitle_counts lang w = (Inl AttributeError, w)"
  proof (cases "read_json (meta_path S lang) (files_of w)")
    case (Inl e)
    with assms(1,2) show ?thesis
      by (simp add: process_locale_def io_bind_def io_lift_def from_files_def load_local_meta_def
                    and_then_def)
  next
    case (Inr local_meta)
    with assms(3) obtain name where "get_language_name H lang = Inr name" by auto
    from subtitle_count_outcome[OF this, of subtitle_counts] show ?thesis
      using assms(1,2) Inr
      by (auto simp: process_locale_def io_bind_def io_lift_def from_files_def load_local_meta_def
                     updated_metadata_without_status)
  qed
  then show ?thesis by (simp add: io_bind_def)
qed

theorem unmatched_locale_raises_witness:
  "isdir (files_of (example_world 200 (Raw []))) (LOCALE_ROOT (example_settings ''1.0'') @ [''fr''])
   \<and> find_crowdin_meta example_helpers ''fr'' example_status = Inr PNone
   \<and> read_json (meta_path (example_settings ''1.0'') ''fr'') (files_of (example_world 200 (Raw [])))
       = Inl IOError
   \<and> process_locale example_helpers (example_settings ''1.0'') example_status
         example_subtitle_counts ''fr'' (example_world 200 (Raw []))
       = (Inl AttributeError, example_world 200 (Raw []))
   \<and> isdir (files_of (example_world 200 (Raw []))) (LOCALE_ROOT (example_settings ''1.0'') @ [''es''])
   \<and> find_crowdin_meta example_helpers ''es'' (PList []) = Inr PNone
   \<and> get_language_name example_helpers ''es'' = Inr ''Spanish''
   \<and> process_locale example_helpers (example_settings ''1.0'') (PList [])
         example_subtitle_counts ''es'' (example_world 200 (Raw []))
       = (Inl AttributeError, example_world 200 (Raw []))
   \<and> fst (generate_metadata example_helpers (example_settings ''1.0'')
            (example_world 200 example_archive)) = Inl AttributeError"
proof -
  have fr_dir: "isdir (files_of (example_world 200 (Raw [])))
                  (LOCALE_ROOT (example_settings ''1.0'') @ [''fr''])"
    and es_dir: "isdir (files_of (example_world 200 (Raw [])))
                  (LOCALE_ROOT (example_settings ''1.0'') @ [''es''])"
    by (simp_all add: isdir_def example_world_def example_files_def example_settings_def)
  have fr_unmatched: "find_crowdin_meta example_helpers ''fr'' example_status = Inr PNone"
    by (simp add: example_status_def example_helpers_def and_then_def py_eq_def
                  convert_language_code_format_model_def)
  have es_unmatched: "find_crowdin_meta example_helpers ''es'' (PList []) = Inr PNone"
    by simp
  have fr_file: "read_json (meta_path (example_settings ''1.0'') ''fr'')
                   (files_of (example_world 200 (Raw []))) = Inl IOError"
    by (simp add: read_json_def read_file_def meta_path_def and_then_def example_world_def
                  example_files_def example_settings_def)
  have es_name: "get_language_name example_helpers ''es'' = Inr ''Spanish''"
    by (simp add: example_helpers_def get_language_name_model_def)
  from fr_file have fr_third:
    "(\<exists>e. read_json (meta_path (example_settings ''1.0'') ''fr'')
            (files_of (example_world 200 (Raw []))) = Inl e)
     \<or> (\<exists>name. get_language_name example_helpers ''fr'' = Inr name)"
    by blast
  from es_name have es_third:
    "(\<exists>e. read_json (meta_path (example_settings ''1.0'') ''es'')
            (files_of (example_world 200 (Raw []))) = Inl e)
     \<or> (\<exists>name. get_language_name example_helpers ''es'' = Inr name)"
    by blast
  from unmatched_locale_raises [OF fr_dir fr_unmatched fr_third]
       unmatched_locale_raises [OF es_dir es_unmatched es_third]
  show ?thesis
    using fr_dir es_dir fr_unmatched es_unmatched fr_file es_name example_generate_metadata
    by blast
qed

section \<open>Properties of the translation fetcher\<close>





lemma build_translations_effect:
  assumes "build_translations project_id project_key w = (Inr (), w1)"
  shows "remote w1 = remote w \<and> files_of w1 = files_of w"
  using assms
  by (auto simp: build_translations_def io_bind_def logging_info_def requests_get_def
                 logging_error_def io_return_def split: sum.splits)

text \<open>
  The runs of the fetch stage in the example installation: a download answered with
  status 404 and an archive, with status 404 and a page that is no archive, and with
  status 200 and an archive holding a directory named \<^verbatim>\<open>old.po\<close>.
\<close>

lemmas fetch_eval =
  download_latest_translations_def build_translations_def unpack_and_copy_def extract_new_po_def
  clean_up_def tmp_dir_def io_bind_def io_lift_def io_return_def from_files_def on_files_def
  logging_info_def logging_error_def requests_get_def raise_for_status_def
  example_world_def example_remote_def example_files_def example_settings_def example_helpers_def
  example_archive_def example_archive_with_directory_def
  convert_language_code_format_model_def ensure_dir_model_def ancestors_def
  and_then_def write_file_def isdir_def path_exists_def os_listdir_def children_def
  glob_po_def list_or_empty_def visible_def shutil_copy_def rmtree_def read_file_def
  suffix_to_prefix

lemma example_fetch_404:
  "fst (download_latest_translations example_helpers (example_settings ''1.0'')
          ''ka-lite'' ''secret'' ''all'' (example_world 404 example_archive)) = Inr ()"
  by (simp add: fetch_eval)

lemma example_fetch_404_copied:
  "read_file (files_of (snd (download_latest_translations example_helpers (example_settings ''1.0'')
          ''ka-lite'' ''secret'' ''all'' (example_world 404 example_archive))))
        [''locale'', ''es'', ''LC_MESSAGES'', ''djangojs.po''] = Inr (Raw ''msgid script'')"
  by (simp add: fetch_eval)

lemma example_fetch_404_html:
  "fst (download_latest_translations example_helpers (example_settings ''1.0'')
          ''ka-lite'' ''secret'' ''all'' (example_world 404 (Raw ''<error/>''))) = Inl BadZipfile"
  by (simp add: fetch_eval)




text \<open>
  Claim C1, as stated, makes an error status of the download fatal. The source catches the
  exception of \<^verbatim>\<open>raise_for_status\<close> and logs it. A download answered with status 404
  and an archive ends normally, with the translation files of the archive copied into the
  locale tree; answered with status 404 and a page that is no archive it ends with
  \<^verbatim>\<open>BadZipfile\<close>, raised by the unpack step.
\<close>

theorem error_status_counterexample:
  "fst (download_latest_translations example_helpers (example_settings ''1.0'')
          ''ka-lite'' ''secret'' ''all'' (example_world 404 example_archive)) = Inr ()
   \<and> read_file (files_of (snd (download_latest_translations example_helpers (example_settings ''1.0'')
          ''ka-lite'' ''secret'' ''all'' (example_world 404 example_archive))))
        [''locale'', ''es'', ''LC_MESSAGES'', ''djangojs.po''] = Inr (Raw ''msgid script'')
   \<and> fst (download_latest_translations example_helpers (example_settings ''1.0'')
          ''ka-lite'' ''secret'' ''all'' (example_world 404 (Raw ''<error/>''))) = Inl BadZipfile"
  using example_fetch_404 example_fetch_404_copied example_fetch_404_html by simp

text \<open>
  Claim C1, amended. When the export request went through and the download is answered
  with an error status (400 to 599), the fetch stage logs the HTTP error and then does
  with the body of the response what it does after a successful download: it opens it as
  an archive, extracts it, copies the translation files and removes the scratch
  directory. The stage ends as those steps end.
\<close>

theorem error_status_is_logged_and_body_unpacked:
  assumes "build_translations (CROWDIN_PROJECT_ID S) (CROWDIN_PROJECT_KEY S) w = (Inr (), w1)"
      and "remote w (''http://api.crowdin.net/api/project/'' @ project_id @ ''/download/''
                     @ language_code @ ''.zip?key='' @ project_key) = Inr r"
      and "400 \<le> status_code r" and "status_code r < 600"
  shows "download_latest_translations H S project_id project_key language_code w =
           unpack_and_copy H S (content r)
             (w1\<lparr>logged := logged w1 @
                    [LogInfo ''Attempting to download a zip archive of current translations'',
                     LogError (HTTPError (status_code r))]\<rparr>)"
proof -
  from build_translations_effect[OF assms(1)] have "remote w1 = remote w" by simp
  with assms show ?thesis
    by (simp add: download_latest_translations_def io_bind_def logging_info_def requests_get_def
                  raise_for_status_def logging_error_def)
qed

theorem error_status_is_logged_and_body_unpacked_witness:
  "build_translations (CROWDIN_PROJECT_ID (example_settings ''1.0''))
       (CROWDIN_PROJECT_KEY (example_settings ''1.0'')) (example_world 404 example_archive)
     = (Inr (), (example_world 404 example_archive)
                  \<lparr>logged := [LogInfo ''Requesting that CrowdIn build a fresh zip of our translations'']\<rparr>)
   \<and> remote (example_world 404 example_archive)
        (''http://api.crowdin.net/api/project/'' @ ''ka-lite'' @ ''/download/'' @ ''all''
          @ ''.zip?key='' @ ''secret'')
     = Inr \<lparr>status_code = 404, content = example_archive\<rparr>
   \<and> download_latest_translations example_helpers (example_settings ''1.0'')
         ''ka-lite'' ''secret'' ''all'' (example_world 404 example_archive)
     = unpack_and_copy example_helpers (example_settings ''1.0'') example_archive
         ((example_world 404 example_archive)
            \<lparr>logged := [LogInfo ''Requesting that CrowdIn build a fresh zip of our translations'',
                        LogInfo ''Attempting to download a zip archive of current translations'',
                        LogError (HTTPError 404)]\<rparr>)"
proof -
  have export: "build_translations (CROWDIN_PROJECT_ID (example_settings ''1.0''))
       (CROWDIN_PROJECT_KEY (example_settings ''1.0'')) (example_world 404 example_archive)
     = (Inr (), (example_world 404 example_archive)
                  \<lparr>logged := [LogInfo ''Requesting that CrowdIn build a fresh zip of our translations'']\<rparr>)"
    by (simp add: build_translations_def io_bind_def logging_info_def requests_get_def
                  raise_for_status_def io_return_def example_world_def example_remote_def
                  example_settings_def)
  have answer: "remote (example_world 404 example_archive)
        (''http://api.crowdin.net/api/project/'' @ ''ka-lite'' @ ''/download/'' @ ''all''
          @ ''.zip?key='' @ ''secret'')
     = Inr \<lparr>status_code = 404, content = example_archive\<rparr>"
    by (simp add: example_world_def example_remote_def)
  from error_status_is_logged_and_body_unpacked
         [OF export answer, of example_helpers]
  have "download_latest_translations example_helpers (example_settings ''1.0'')
         ''ka-lite'' ''secret'' ''all'' (example_world 404 example_archive)
     = unpack_and_copy example_helpers (example_settings ''1.0'') example_archive
         ((example_world 404 example_archive)
            \<lparr>logged := [LogInfo ''Requesting that CrowdIn build a fresh zip of our translations'',
                        LogInfo ''Attempting to download a zip archive of current translations'',
                        LogError (HTTPError 404)]\<rparr>)"
    by simp
  with export answer show ?thesis by blast
qed




end
